theory Spec2Isabelle
  imports Complex_Main
begin

section \<open>RoadDashboard: widgets, dashboards, builder and manager\<close>

text \<open>
  A shallow embedding of \<^verbatim>\<open>src/roaddashboard/dashboard.py\<close>. Objects are held by
  value and every method takes the object and returns the updated one; the wall clock
  and the logger live in an explicit \<open>world\<close> that is threaded through every call.
\<close>

subsection \<open>Python values, exceptions and the environment\<close>

text \<open>
  \<^verbatim>\<open>Any\<close>: the values a data source may return and an option bag may hold. Only
  \<open>PyNone\<close> is ever inspected by the code; the others are passed through verbatim.
\<close>

datatype py_value = PyNone | PyStr string | PyNum real | PyObj nat

text \<open>
  A raised object. \<open>ExceptionInstance\<close> is an instance of class \<^verbatim>\<open>Exception\<close>, which is
  what \<^verbatim>\<open>except Exception\<close> catches; it comes with what \<^verbatim>\<open>str(e)\<close> does, which is to
  return a string or, when its \<^verbatim>\<open>__str__\<close> is broken, to raise in turn. \<open>BaseOnly\<close> is an
  instance of \<^verbatim>\<open>BaseException\<close> outside \<^verbatim>\<open>Exception\<close> (KeyboardInterrupt, SystemExit,
  asyncio.CancelledError), named by its class, which that handler lets through.
\<close>

datatype py_exception = ExceptionInstance str_outcome | BaseOnly string
  and str_outcome = Str string | StrRaises py_exception

datatype 'a py_result = Returns 'a | Raises py_exception

text \<open>\<^verbatim>\<open>str(e)\<close>, which the code evaluates only on an instance of \<^verbatim>\<open>Exception\<close>.\<close>

fun str :: "py_exception \<Rightarrow> string py_result" where
  "str (ExceptionInstance (Str msg)) = Returns msg"
| "str (ExceptionInstance (StrRaises e)) = Raises e"
| "str (BaseOnly name) = Returns name"

text \<open>
  What calling a data source yields: a plain value, or a coroutine object together
  with what awaiting it produces. Data sources are assumed to return or raise; one that
  never comes back is outside the model.
\<close>

datatype source_value = Plain py_value | Coroutine "py_value py_result"

text \<open>
  Times are microseconds on the naive \<^verbatim>\<open>datetime\<close> axis. The world holds the
  successive readings of \<^verbatim>\<open>datetime.now()\<close> (any sequence: nothing forces the clock to
  be monotone), how many readings have been taken, and the lines written to the logger.
\<close>

type_synonym time = int

record world =
  clock :: "nat \<Rightarrow> time"
  reads :: nat
  log :: "string list"

definition datetime_now :: "world \<Rightarrow> time \<times> world" where
  "datetime_now s = (clock s (reads s), s\<lparr>reads := Suc (reads s)\<rparr>)"

definition logger_error :: "string \<Rightarrow> world \<Rightarrow> world" where
  "logger_error msg s = s\<lparr>log := log s @ [msg]\<rparr>"

text \<open>
  \<^verbatim>\<open>timedelta.total_seconds()\<close> of the difference of two times, as an exact number;
  the rounding of Python's float division is not modelled.
\<close>

definition total_seconds :: "time \<Rightarrow> real" where
  "total_seconds delta = real_of_int delta / 1000000"

subsection \<open>Data model\<close>

datatype WidgetType = METRIC | CHART | TABLE | LIST | GAUGE | TEXT

fun WidgetType_value :: "WidgetType \<Rightarrow> string" where
  "WidgetType_value METRIC = ''metric''"
| "WidgetType_value CHART = ''chart''"
| "WidgetType_value TABLE = ''table''"
| "WidgetType_value LIST = ''list''"
| "WidgetType_value GAUGE = ''gauge''"
| "WidgetType_value TEXT = ''text''"

datatype RefreshMode = MANUAL | INTERVAL | REALTIME

text \<open>
  A Python \<^verbatim>\<open>dict\<close> is an association list in insertion order with distinct keys;
  \<open>dict_set\<close> is \<^verbatim>\<open>d[k] = v\<close> (an existing key keeps its position), \<open>dict_get\<close> is
  \<^verbatim>\<open>d.get(k)\<close>, \<open>dict_del\<close> is \<^verbatim>\<open>del d[k]\<close> for a key that is present.
\<close>

type_synonym ('k, 'v) dict = "('k \<times> 'v) list"

fun dict_set :: "'k \<Rightarrow> 'v \<Rightarrow> ('k, 'v) dict \<Rightarrow> ('k, 'v) dict" where
  "dict_set k v [] = [(k, v)]"
| "dict_set k v ((k', v') # rest) =
     (if k' = k then (k, v) # rest else (k', v') # dict_set k v rest)"

fun dict_get :: "('k, 'v) dict \<Rightarrow> 'k \<Rightarrow> 'v option" where
  "dict_get [] k = None"
| "dict_get ((k', v') # rest) k = (if k' = k then Some v' else dict_get rest k)"

fun dict_del :: "'k \<Rightarrow> ('k, 'v) dict \<Rightarrow> ('k, 'v) dict" where
  "dict_del k [] = []"
| "dict_del k ((k', v') # rest) = (if k' = k then rest else (k', v') # dict_del k rest)"

definition keys :: "('k, 'v) dict \<Rightarrow> 'k list" where
  "keys d = map fst d"

record WidgetConfig =
  wc_id :: string
  wc_type :: WidgetType
  wc_title :: string
  wc_data_source :: "world \<Rightarrow> source_value py_result"
  wc_refresh_interval :: int
  wc_refresh_mode :: RefreshMode
  wc_style :: "(string, py_value) dict"
  wc_options :: "(string, py_value) dict"

record WidgetData =
  widget_id :: string
  data :: py_value
  timestamp :: time
  error :: "string option"

record Widget =
  w_config :: WidgetConfig
  last_data :: "WidgetData option"
  last_refresh :: "time option"

text \<open>\<^verbatim>\<open>Widget.__init__\<close>\<close>

definition new_Widget :: "WidgetConfig \<Rightarrow> Widget" where
  "new_Widget c = \<lparr>w_config = c, last_data = None, last_refresh = None\<rparr>"

subsection \<open>Widget\<close>

text \<open>
  The body of the \<^verbatim>\<open>try\<close> up to the first assignment: call the data source and, when
  the result is a coroutine, await it. Either step may raise.
\<close>

fun fetch :: "source_value py_result \<Rightarrow> py_value py_result" where
  "fetch (Raises e) = Raises e"
| "fetch (Returns (Plain v)) = Returns v"
| "fetch (Returns (Coroutine r)) = r"


text \<open>
  \<^verbatim>\<open>Widget.refresh\<close>. The result is \<open>Inr\<close> of the returned WidgetData, or \<open>Inl\<close> of
  the exception that leaves the method. Constructing a WidgetData reads the clock (the
  default of \<^verbatim>\<open>timestamp\<close>); the success path reads it a second time for
  \<^verbatim>\<open>_last_refresh\<close>. The handler formats \<^verbatim>\<open>e\<close> for the logger before anything else,
  so a \<^verbatim>\<open>str(e)\<close> that raises leaves the method from there.
\<close>

definition refresh :: "Widget \<Rightarrow> world \<Rightarrow> (py_exception + WidgetData) \<times> Widget \<times> world" where
  "refresh w s =
     (case fetch (wc_data_source (w_config w) s) of
        Returns result \<Rightarrow>
          (let (ts, s1) = datetime_now s;
               wd = \<lparr>widget_id = wc_id (w_config w), data = result,
                     timestamp = ts, error = None\<rparr>;
               (t, s2) = datetime_now s1
           in (Inr wd, w\<lparr>last_data := Some wd, last_refresh := Some t\<rparr>, s2))
      | Raises (ExceptionInstance so) \<Rightarrow>
          (case str (ExceptionInstance so) of
             Raises e' \<Rightarrow> (Inl e', w, s)
           | Returns msg \<Rightarrow>
               (let s1 = logger_error (''Widget '' @ wc_id (w_config w) @ '' refresh error: '' @ msg) s;
                    (ts, s2) = datetime_now s1
                in (Inr \<lparr>widget_id = wc_id (w_config w), data = PyNone,
                          timestamp = ts, error = Some msg\<rparr>, w, s2)))
      | Raises (BaseOnly name) \<Rightarrow> (Inl (BaseOnly name), w, s))"

text \<open>
  \<^verbatim>\<open>Widget.needs_refresh\<close>. It returns no widget: the widget is only read. The clock
  is read only on the last path.
\<close>

definition needs_refresh :: "Widget \<Rightarrow> world \<Rightarrow> bool \<times> world" where
  "needs_refresh w s =
     (if wc_refresh_mode (w_config w) = MANUAL then (False, s)
      else case last_refresh w of
             None \<Rightarrow> (True, s)
           | Some t0 \<Rightarrow>
               (let (now, s1) = datetime_now s;
                    elapsed = total_seconds (now - t0)
                in (elapsed \<ge> real_of_int (wc_refresh_interval (w_config w)), s1)))"


text \<open>
  The snapshot of one widget. \<^verbatim>\<open>isoformat()\<close> is not modelled: the snapshot keeps the
  time itself.
\<close>

record WidgetSnapshot =
  ws_id :: string
  ws_type :: string
  ws_title :: string
  ws_data :: py_value
  ws_timestamp :: "time option"
  ws_error :: "string option"
  ws_options :: "(string, py_value) dict"

definition to_dict :: "Widget \<Rightarrow> WidgetSnapshot" where
  "to_dict w =
     \<lparr>ws_id = wc_id (w_config w),
      ws_type = WidgetType_value (wc_type (w_config w)),
      ws_title = wc_title (w_config w),
      ws_data = (case last_data w of Some d \<Rightarrow> data d | None \<Rightarrow> PyNone),
      ws_timestamp = (case last_data w of Some d \<Rightarrow> Some (timestamp d) | None \<Rightarrow> None),
      ws_error = (case last_data w of Some d \<Rightarrow> error d | None \<Rightarrow> None),
      ws_options = wc_options (w_config w)\<rparr>"

text \<open>
  The states a widget with configuration \<open>c\<close> can be in: as constructed, or after a
  refresh (in any world) of a widget in such a state.
\<close>

inductive refreshed :: "WidgetConfig \<Rightarrow> Widget \<Rightarrow> bool" for c where
  fresh: "refreshed c (new_Widget c)"
| again: "refreshed c w \<Longrightarrow> refreshed c (fst (snd (refresh w s)))"

subsection \<open>Dashboard\<close>

record DashboardConfig =
  dc_id :: string
  dc_name :: string
  dc_description :: string
  dc_layout :: "string list list"
  dc_refresh_interval :: int
  dc_metadata :: "(string, py_value) dict"

text \<open>
  A dashboard holds its widgets by value, one entry per key. The lock around
  \<^verbatim>\<open>add_widget\<close> and \<^verbatim>\<open>remove_widget\<close> has no counterpart: the model is sequential.
\<close>

record Dashboard =
  d_config :: DashboardConfig
  widgets :: "(string, Widget) dict"

definition new_Dashboard :: "DashboardConfig \<Rightarrow> Dashboard" where
  "new_Dashboard c = \<lparr>d_config = c, widgets = []\<rparr>"

definition add_widget :: "Dashboard \<Rightarrow> Widget \<Rightarrow> Dashboard" where
  "add_widget d w = d\<lparr>widgets := dict_set (wc_id (w_config w)) w (widgets d)\<rparr>"

definition remove_widget :: "Dashboard \<Rightarrow> string \<Rightarrow> bool \<times> Dashboard" where
  "remove_widget d k =
     (if k \<in> set (keys (widgets d)) then (True, d\<lparr>widgets := dict_del k (widgets d)\<rparr>)
      else (False, d))"

text \<open>
  The loop of \<^verbatim>\<open>refresh_all\<close> over \<^verbatim>\<open>self.widgets.items()\<close>, with \<^verbatim>\<open>results\<close> as
  accumulator. A refresh mutates the widget in place, so the loop returns the items with
  the widgets as they are afterwards; an exception leaving \<^verbatim>\<open>refresh\<close> ends the loop.
\<close>

fun refresh_all_loop ::
  "(string, Widget) dict \<Rightarrow> (string, WidgetData) dict \<Rightarrow> world \<Rightarrow>
     (py_exception + (string, WidgetData) dict) \<times> (string, Widget) dict \<times> world" where
  "refresh_all_loop [] results s = (Inr results, [], s)"
| "refresh_all_loop ((k, w) # rest) results s =
     (case refresh w s of
        (Inl e, w', s') \<Rightarrow> (Inl e, (k, w') # rest, s')
      | (Inr wd, w', s') \<Rightarrow>
          (case refresh_all_loop rest (dict_set k wd results) s' of
             (r, rest', s'') \<Rightarrow> (r, (k, w') # rest', s'')))"

definition refresh_all ::
  "Dashboard \<Rightarrow> world \<Rightarrow> (py_exception + (string, WidgetData) dict) \<times> Dashboard \<times> world" where
  "refresh_all d s =
     (case refresh_all_loop (widgets d) [] s of (r, ws, s') \<Rightarrow> (r, d\<lparr>widgets := ws\<rparr>, s'))"







text \<open>
  \<^verbatim>\<open>Dashboard.get_data\<close>. The comprehension over the items of a dict gives one entry
  per item, in the same order.
\<close>

record DashboardSnapshot =
  ds_id :: string
  ds_name :: string
  ds_widgets :: "(string, WidgetSnapshot) dict"
  ds_layout :: "string list list"
  ds_timestamp :: time

definition dashboard_get_data :: "Dashboard \<Rightarrow> world \<Rightarrow> DashboardSnapshot \<times> world" where
  "dashboard_get_data d s =
     (let (now, s1) = datetime_now s
      in (\<lparr>ds_id = dc_id (d_config d),
           ds_name = dc_name (d_config d),
           ds_widgets = map (\<lambda>(wid, w). (wid, to_dict w)) (widgets d),
           ds_layout = dc_layout (d_config d),
           ds_timestamp = now\<rparr>, s1))"

subsection \<open>DashboardBuilder\<close>

record DashboardBuilder =
  b_config :: DashboardConfig
  b_widgets :: "Widget list"
  b_layout :: "string list list"

text \<open>The defaults of the dataclass fields that the builder never sets.\<close>

definition new_DashboardConfig :: "string \<Rightarrow> string \<Rightarrow> DashboardConfig" where
  "new_DashboardConfig i n =
     \<lparr>dc_id = i, dc_name = n, dc_description = [], dc_layout = [],
      dc_refresh_interval = 60, dc_metadata = []\<rparr>"

definition new_WidgetConfig ::
  "string \<Rightarrow> WidgetType \<Rightarrow> string \<Rightarrow> (world \<Rightarrow> source_value py_result) \<Rightarrow>
     (string, py_value) dict \<Rightarrow> WidgetConfig" where
  "new_WidgetConfig i ty title ds options =
     \<lparr>wc_id = i, wc_type = ty, wc_title = title, wc_data_source = ds,
      wc_refresh_interval = 60, wc_refresh_mode = INTERVAL, wc_style = [],
      wc_options = options\<rparr>"

definition new_DashboardBuilder :: "string \<Rightarrow> string \<Rightarrow> DashboardBuilder" where
  "new_DashboardBuilder dashboard_id name =
     \<lparr>b_config = new_DashboardConfig dashboard_id name, b_widgets = [], b_layout = []\<rparr>"

definition description :: "DashboardBuilder \<Rightarrow> string \<Rightarrow> DashboardBuilder" where
  "description b desc = b\<lparr>b_config := (b_config b)\<lparr>dc_description := desc\<rparr>\<rparr>"

text \<open>
  The keyword arguments arrive as the dict \<open>options\<close>. A caller that omits
  \<^verbatim>\<open>chart_type\<close> passes \<open>''line''\<close>; one that omits \<^verbatim>\<open>min_val\<close> and \<^verbatim>\<open>max_val\<close> passes
  0 and 100.
\<close>

definition metric ::
  "DashboardBuilder \<Rightarrow> string \<Rightarrow> string \<Rightarrow> (world \<Rightarrow> source_value py_result) \<Rightarrow>
     (string, py_value) dict \<Rightarrow> DashboardBuilder" where
  "metric b wid title ds options =
     b\<lparr>b_widgets := b_widgets b @ [new_Widget (new_WidgetConfig wid METRIC title ds options)]\<rparr>"

definition chart ::
  "DashboardBuilder \<Rightarrow> string \<Rightarrow> string \<Rightarrow> (world \<Rightarrow> source_value py_result) \<Rightarrow> string \<Rightarrow>
     (string, py_value) dict \<Rightarrow> DashboardBuilder" where
  "chart b wid title ds chart_type options =
     (let options' = dict_set ''chart_type'' (PyStr chart_type) options
      in b\<lparr>b_widgets := b_widgets b @ [new_Widget (new_WidgetConfig wid CHART title ds options')]\<rparr>)"

definition table ::
  "DashboardBuilder \<Rightarrow> string \<Rightarrow> string \<Rightarrow> (world \<Rightarrow> source_value py_result) \<Rightarrow>
     (string, py_value) dict \<Rightarrow> DashboardBuilder" where
  "table b wid title ds options =
     b\<lparr>b_widgets := b_widgets b @ [new_Widget (new_WidgetConfig wid TABLE title ds options)]\<rparr>"

definition gauge ::
  "DashboardBuilder \<Rightarrow> string \<Rightarrow> string \<Rightarrow> (world \<Rightarrow> source_value py_result) \<Rightarrow> real \<Rightarrow> real \<Rightarrow>
     (string, py_value) dict \<Rightarrow> DashboardBuilder" where
  "gauge b wid title ds min_val max_val options =
     (let options' = dict_set ''max'' (PyNum max_val) (dict_set ''min'' (PyNum min_val) options)
      in b\<lparr>b_widgets := b_widgets b @ [new_Widget (new_WidgetConfig wid GAUGE title ds options')]\<rparr>)"

definition row :: "DashboardBuilder \<Rightarrow> string list \<Rightarrow> DashboardBuilder" where
  "row b widget_ids = b\<lparr>b_layout := b_layout b @ [widget_ids]\<rparr>"

definition build :: "DashboardBuilder \<Rightarrow> Dashboard" where
  "build b =
     (let config = (b_config b)\<lparr>dc_layout := b_layout b\<rparr>
      in foldl add_widget (new_Dashboard config) (b_widgets b))"

text \<open>A fluent chain is a list of calls applied to the builder from left to right.\<close>

datatype builder_call =
    Description string
  | Metric string string "world \<Rightarrow> source_value py_result" "(string, py_value) dict"
  | Chart string string "world \<Rightarrow> source_value py_result" string "(string, py_value) dict"
  | Table string string "world \<Rightarrow> source_value py_result" "(string, py_value) dict"
  | Gauge string string "world \<Rightarrow> source_value py_result" real real "(string, py_value) dict"
  | Row "string list"

fun apply_call :: "DashboardBuilder \<Rightarrow> builder_call \<Rightarrow> DashboardBuilder" where
  "apply_call b (Description desc) = description b desc"
| "apply_call b (Metric wid title ds opts) = metric b wid title ds opts"
| "apply_call b (Chart wid title ds ct opts) = chart b wid title ds ct opts"
| "apply_call b (Table wid title ds opts) = table b wid title ds opts"
| "apply_call b (Gauge wid title ds lo hi opts) = gauge b wid title ds lo hi opts"
| "apply_call b (Row ids) = row b ids"

definition chain :: "DashboardBuilder \<Rightarrow> builder_call list \<Rightarrow> DashboardBuilder" where
  "chain b calls = foldl apply_call b calls"

text \<open>The widget ids and the rows that a list of calls passes, in call order.\<close>

fun added_ids :: "builder_call list \<Rightarrow> string list" where
  "added_ids [] = []"
| "added_ids (Description desc # cs) = added_ids cs"
| "added_ids (Metric wid title ds opts # cs) = wid # added_ids cs"
| "added_ids (Chart wid title ds ct opts # cs) = wid # added_ids cs"
| "added_ids (Table wid title ds opts # cs) = wid # added_ids cs"
| "added_ids (Gauge wid title ds lo hi opts # cs) = wid # added_ids cs"
| "added_ids (Row ids # cs) = added_ids cs"

fun added_rows :: "builder_call list \<Rightarrow> string list list" where
  "added_rows [] = []"
| "added_rows (Row ids # cs) = ids # added_rows cs"
| "added_rows (c # cs) = added_rows cs"

subsection \<open>DashboardManager\<close>

record DashboardManager =
  dashboards :: "(string, Dashboard) dict"
  refresh_task :: py_value
  running :: bool

definition new_DashboardManager :: DashboardManager where
  "new_DashboardManager = \<lparr>dashboards = [], refresh_task = PyNone, running = False\<rparr>"

definition create :: "DashboardManager \<Rightarrow> string \<Rightarrow> string \<Rightarrow> DashboardBuilder" where
  "create m dashboard_id name = new_DashboardBuilder dashboard_id name"

definition register :: "DashboardManager \<Rightarrow> Dashboard \<Rightarrow> DashboardManager" where
  "register m d = m\<lparr>dashboards := dict_set (dc_id (d_config d)) d (dashboards m)\<rparr>"

definition manager_get :: "DashboardManager \<Rightarrow> string \<Rightarrow> Dashboard option" where
  "manager_get m dashboard_id = dict_get (dashboards m) dashboard_id"

text \<open>
  \<^verbatim>\<open>DashboardManager.refresh\<close>. The dashboard found is refreshed in place, so the
  registry afterwards holds the refreshed dashboard under the same key.
\<close>

definition manager_refresh ::
  "DashboardManager \<Rightarrow> string \<Rightarrow> world \<Rightarrow>
     (py_exception + (string, WidgetData) dict option) \<times> DashboardManager \<times> world" where
  "manager_refresh m dashboard_id s =
     (case dict_get (dashboards m) dashboard_id of
        Some d \<Rightarrow>
          (case refresh_all d s of
             (Inl e, d', s') \<Rightarrow>
               (Inl e, m\<lparr>dashboards := dict_set dashboard_id d' (dashboards m)\<rparr>, s')
           | (Inr results, d', s') \<Rightarrow>
               (Inr (Some results), m\<lparr>dashboards := dict_set dashboard_id d' (dashboards m)\<rparr>, s'))
      | None \<Rightarrow> (Inr None, m, s))"

definition stop_auto_refresh :: "DashboardManager \<Rightarrow> DashboardManager" where
  "stop_auto_refresh m = m\<lparr>running := False\<rparr>"

definition list_dashboards :: "DashboardManager \<Rightarrow> (string \<times> string) list" where
  "list_dashboards m = map (\<lambda>(k, d). (dc_id (d_config d), dc_name (d_config d))) (dashboards m)"

definition manager_get_data ::
  "DashboardManager \<Rightarrow> string \<Rightarrow> world \<Rightarrow> DashboardSnapshot option \<times> world" where
  "manager_get_data m dashboard_id s =
     (case dict_get (dashboards m) dashboard_id of
        Some d \<Rightarrow> (let (snap, s') = dashboard_get_data d s in (Some snap, s'))
      | None \<Rightarrow> (None, s))"

subsection \<open>Example inputs\<close>

text \<open>
  Concrete data sources, clocks and widgets on which the theorems below are run. A data
  source sees the world, so \<open>flaky\<close> can succeed on its first call (no clock reading
  taken yet) and fail afterwards.
\<close>

definition cpu_usage :: "world \<Rightarrow> source_value py_result" where
  "cpu_usage s = Returns (Plain (PyNum 65))"

definition boom :: "world \<Rightarrow> source_value py_result" where
  "boom s = Raises (ExceptionInstance (Str ''boom''))"

definition cancelled :: "world \<Rightarrow> source_value py_result" where
  "cancelled s = Returns (Coroutine (Raises (BaseOnly ''CancelledError'')))"

definition flaky :: "world \<Rightarrow> source_value py_result" where
  "flaky s = (if reads s < 2 then Returns (Plain (PyNum 65)) else Raises (ExceptionInstance (Str ''boom'')))"

definition example_config :: "RefreshMode \<Rightarrow> (world \<Rightarrow> source_value py_result) \<Rightarrow> WidgetConfig" where
  "example_config mode ds = (new_WidgetConfig ''cpu'' GAUGE ''CPU Usage'' ds [])\<lparr>wc_refresh_mode := mode\<rparr>"

text \<open>A clock whose successive readings are \<open>step\<close> microseconds apart, starting at 0.\<close>

definition ticking :: "int \<Rightarrow> world" where
  "ticking step = \<lparr>clock = (\<lambda>n. step * int n), reads = 0, log = []\<rparr>"

text \<open>
  A widget with the flaky source, readings 40 seconds apart: the first refresh succeeds,
  the second fails.
\<close>

definition after_success :: "(py_exception + WidgetData) \<times> Widget \<times> world" where
  "after_success = refresh (new_Widget (example_config INTERVAL flaky)) (ticking 40000000)"

definition after_failure :: "(py_exception + WidgetData) \<times> Widget \<times> world" where
  "after_failure = refresh (fst (snd after_success)) (snd (snd after_success))"

text \<open>A realtime widget refreshed once, with clock readings one second apart.\<close>

definition realtime_refreshed :: "(py_exception + WidgetData) \<times> Widget \<times> world" where
  "realtime_refreshed = refresh (new_Widget (example_config REALTIME cpu_usage)) (ticking 1000000)"

text \<open>
  The builder chain of the round-trip example, and a manager in which the dashboard built
  from it is registered as \<open>main\<close>.
\<close>

definition example_calls :: "builder_call list" where
  "example_calls =
     [Metric ''users'' ''Total Users'' cpu_usage [],
      Metric ''revenue'' ''Revenue'' cpu_usage [],
      Chart ''chart'' ''Sales Over Time'' cpu_usage ''line'' [],
      Row [''users'', ''revenue''],
      Row [''chart'']]"

definition manager_with_main :: DashboardManager where
  "manager_with_main =
     register new_DashboardManager (build (chain (create new_DashboardManager ''main'' ''Main Dashboard'') example_calls))"

text \<open>
  A dashboard with the widgets a (succeeds), b (fails), c (succeeds); the same with a b
  whose coroutine is cancelled; and one with a manual widget, a widget never refreshed and
  a widget refreshed a moment ago.
\<close>

definition abc_dashboard :: Dashboard where
  "abc_dashboard =
     build (chain (new_DashboardBuilder ''abc'' ''ABC'')
       [Metric ''a'' ''A'' cpu_usage [], Metric ''b'' ''B'' boom [], Metric ''c'' ''C'' cpu_usage []])"



section \<open>Properties\<close>

subsection \<open>What one refresh does\<close>

lemma refresh_Returns:
  "fetch (wc_data_source (w_config w) s) = Returns v \<Longrightarrow>
   refresh w s =
     (Inr \<lparr>widget_id = wc_id (w_config w), data = v, timestamp = clock s (reads s), error = None\<rparr>,
      w\<lparr>last_data := Some \<lparr>widget_id = wc_id (w_config w), data = v,
                             timestamp = clock s (reads s), error = None\<rparr>,
        last_refresh := Some (clock s (Suc (reads s)))\<rparr>,
      s\<lparr>reads := Suc (Suc (reads s))\<rparr>)"
  by (simp add: refresh_def datetime_now_def Let_def)

lemma refresh_Exception:
  "fetch (wc_data_source (w_config w) s) = Raises (ExceptionInstance (Str msg)) \<Longrightarrow>
   refresh w s =
     (Inr \<lparr>widget_id = wc_id (w_config w), data = PyNone, timestamp = clock s (reads s),
           error = Some msg\<rparr>,
      w,
      s\<lparr>reads := Suc (reads s),
        log := log s @ [''Widget '' @ wc_id (w_config w) @ '' refresh error: '' @ msg]\<rparr>)"
  by (simp add: refresh_def datetime_now_def logger_error_def Let_def)

lemma refresh_BaseOnly:
  "fetch (wc_data_source (w_config w) s) = Raises (BaseOnly name) \<Longrightarrow>
   refresh w s = (Inl (BaseOnly name), w, s)"
  by (simp add: refresh_def)

lemma refresh_StrRaises:
  "fetch (wc_data_source (w_config w) s) = Raises (ExceptionInstance (StrRaises e)) \<Longrightarrow>
   refresh w s = (Inl e, w, s)"
  by (simp add: refresh_def)

lemma after_success_eq:
  "after_success =
     (Inr \<lparr>widget_id = ''cpu'', data = PyNum 65, timestamp = 0, error = None\<rparr>,
      \<lparr>w_config = example_config INTERVAL flaky,
        last_data = Some \<lparr>widget_id = ''cpu'', data = PyNum 65, timestamp = 0, error = None\<rparr>,
        last_refresh = Some 40000000\<rparr>,
      \<lparr>clock = (\<lambda>n. 40000000 * int n), reads = 2, log = []\<rparr>)"
  by (simp add: after_success_def refresh_def new_Widget_def example_config_def
      new_WidgetConfig_def flaky_def ticking_def datetime_now_def Let_def)

lemma after_failure_eq:
  "after_failure =
     (Inr \<lparr>widget_id = ''cpu'', data = PyNone, timestamp = 80000000, error = Some ''boom''\<rparr>,
      \<lparr>w_config = example_config INTERVAL flaky,
        last_data = Some \<lparr>widget_id = ''cpu'', data = PyNum 65, timestamp = 0, error = None\<rparr>,
        last_refresh = Some 40000000\<rparr>,
      \<lparr>clock = (\<lambda>n. 40000000 * int n), reads = 3, log = [''Widget cpu refresh error: boom'']\<rparr>)"
  by (simp add: after_failure_def after_success_eq refresh_def example_config_def
      new_WidgetConfig_def flaky_def datetime_now_def logger_error_def Let_def)

text \<open>
  C1, as stated, fails: a data source whose coroutine is cancelled raises
  \<^verbatim>\<open>asyncio.CancelledError\<close>, which is not an \<^verbatim>\<open>Exception\<close>; it passes the handler and
  leaves \<^verbatim>\<open>refresh\<close>, which returns no WidgetData.
\<close>

theorem refresh_propagates_counterexample:
  "fetch (wc_data_source (w_config (new_Widget (example_config INTERVAL cancelled))) (ticking 1)) =
     Raises (BaseOnly ''CancelledError'') \<and>
   fst (refresh (new_Widget (example_config INTERVAL cancelled)) (ticking 1)) =
     Inl (BaseOnly ''CancelledError'')"
  by (simp add: refresh_def new_Widget_def example_config_def new_WidgetConfig_def cancelled_def)

text \<open>
  C1, amended: what \<^verbatim>\<open>refresh\<close> gives its caller, for every widget and every outcome of
  the data source. A source that returns gives a WidgetData with its value and no error.
  A source that raises an instance of \<^verbatim>\<open>Exception\<close> gives a WidgetData with
  \<open>data = PyNone\<close> and the error string \<^verbatim>\<open>str(e)\<close>, and nothing is raised: the error
  field alone tells success from failure. An exception outside \<^verbatim>\<open>Exception\<close> reaches the
  caller, and so does one raised by \<^verbatim>\<open>str(e)\<close> inside the handler.
\<close>

theorem refresh_catches_Exception:
  "case fetch (wc_data_source (w_config w) s) of
     Returns v \<Rightarrow>
       fst (refresh w s) =
         Inr \<lparr>widget_id = wc_id (w_config w), data = v, timestamp = clock s (reads s),
               error = None\<rparr>
   | Raises (ExceptionInstance (Str msg)) \<Rightarrow>
       fst (refresh w s) =
         Inr \<lparr>widget_id = wc_id (w_config w), data = PyNone, timestamp = clock s (reads s),
               error = Some msg\<rparr>
   | Raises (ExceptionInstance (StrRaises e)) \<Rightarrow> fst (refresh w s) = Inl e
   | Raises (BaseOnly name) \<Rightarrow> fst (refresh w s) = Inl (BaseOnly name)"
  by (simp add: refresh_Returns refresh_Exception refresh_StrRaises refresh_BaseOnly
      split: py_result.split py_exception.split str_outcome.split)

theorem refresh_catches_Exception_witness:
  "fst (refresh (new_Widget (example_config INTERVAL boom)) (ticking 1)) =
     Inr \<lparr>widget_id = ''cpu'', data = PyNone, timestamp = 0, error = Some ''boom''\<rparr> \<and>
   fst (refresh (new_Widget (example_config INTERVAL cpu_usage)) (ticking 1)) =
     Inr \<lparr>widget_id = ''cpu'', data = PyNum 65, timestamp = 0, error = None\<rparr>"
  using refresh_catches_Exception [of "new_Widget (example_config INTERVAL boom)" "ticking 1"]
    refresh_catches_Exception [of "new_Widget (example_config INTERVAL cpu_usage)" "ticking 1"]
  by (simp add: new_Widget_def example_config_def new_WidgetConfig_def boom_def cpu_usage_def
      ticking_def)

text \<open>
  C2, evaluated on the code: after a refresh whose data source raised, the stored last
  data is not the error-carrying WidgetData that was returned, and the last-refresh time
  is still that of the earlier successful refresh (40 s), not of the failed attempt
  (80 s). With an interval of 60 s the widget is therefore due again at 120 s.
\<close>

theorem failed_refresh_leaves_state:
  "fst after_failure =
     Inr \<lparr>widget_id = ''cpu'', data = PyNone, timestamp = 80000000, error = Some ''boom''\<rparr> \<and>
   last_data (fst (snd after_failure)) \<noteq>
     Some \<lparr>widget_id = ''cpu'', data = PyNone, timestamp = 80000000, error = Some ''boom''\<rparr> \<and>
   last_refresh (fst (snd after_failure)) = Some 40000000 \<and>
   clock (snd (snd after_failure)) (reads (snd (snd after_failure))) = 120000000 \<and>
   wc_refresh_interval (w_config (fst (snd after_failure))) = 60 \<and>
   fst (needs_refresh (fst (snd after_failure)) (snd (snd after_failure))) = True"
  by (simp add: after_failure_eq needs_refresh_def datetime_now_def total_seconds_def
      example_config_def new_WidgetConfig_def Let_def)

text \<open>
  C4. \<^verbatim>\<open>needs_refresh\<close> is false in manual mode; true for a widget that was never
  refreshed and is not manual; otherwise true exactly when the seconds elapsed since the
  last-refresh time are at least \<^verbatim>\<open>refresh_interval\<close>. It has no effect: it returns no
  widget, writes no log line and leaves the clock as it is (it only reads it).
\<close>

theorem needs_refresh_contract:
  "(wc_refresh_mode (w_config w) = MANUAL \<longrightarrow> needs_refresh w s = (False, s)) \<and>
   (wc_refresh_mode (w_config w) \<noteq> MANUAL \<and> last_refresh w = None \<longrightarrow>
      needs_refresh w s = (True, s)) \<and>
   (wc_refresh_mode (w_config w) \<noteq> MANUAL \<and> last_refresh w = Some t0 \<longrightarrow>
      fst (needs_refresh w s) =
        (total_seconds (clock s (reads s) - t0) \<ge> real_of_int (wc_refresh_interval (w_config w)))) \<and>
   clock (snd (needs_refresh w s)) = clock s \<and> log (snd (needs_refresh w s)) = log s"
  by (simp add: needs_refresh_def datetime_now_def Let_def split: option.splits)

theorem needs_refresh_contract_witness:
  "wc_refresh_mode (w_config (new_Widget (example_config MANUAL cpu_usage))) = MANUAL \<and>
   needs_refresh (new_Widget (example_config MANUAL cpu_usage)) (ticking 1) = (False, ticking 1) \<and>
   wc_refresh_mode (w_config (new_Widget (example_config INTERVAL cpu_usage))) \<noteq> MANUAL \<and>
   last_refresh (new_Widget (example_config INTERVAL cpu_usage)) = None \<and>
   needs_refresh (new_Widget (example_config INTERVAL cpu_usage)) (ticking 1) = (True, ticking 1) \<and>
   wc_refresh_mode (w_config (fst (snd after_success))) \<noteq> MANUAL \<and>
   last_refresh (fst (snd after_success)) = Some 40000000 \<and>
   fst (needs_refresh (fst (snd after_success)) (snd (snd after_success))) = False \<and>
   fst (needs_refresh (fst (snd after_success)) (snd (snd after_failure))) = True"
  using needs_refresh_contract [of "new_Widget (example_config MANUAL cpu_usage)" "ticking 1"]
    needs_refresh_contract [of "new_Widget (example_config INTERVAL cpu_usage)" "ticking 1"]
    needs_refresh_contract [of "fst (snd after_success)" "snd (snd after_success)" 40000000]
    needs_refresh_contract [of "fst (snd after_success)" "snd (snd after_failure)" 40000000]
  by (simp add: after_success_eq after_failure_eq new_Widget_def example_config_def
      new_WidgetConfig_def total_seconds_def)

text \<open>
  C5, as stated, fails: a realtime widget refreshed one second ago, with the default
  interval of 60 s, is not reported as due.
\<close>

theorem realtime_not_always_due_counterexample:
  "wc_refresh_mode (w_config (fst (snd realtime_refreshed))) = REALTIME \<and>
   last_refresh (fst (snd realtime_refreshed)) = Some 1000000 \<and>
   clock (snd (snd realtime_refreshed)) (reads (snd (snd realtime_refreshed))) = 2000000 \<and>
   fst (needs_refresh (fst (snd realtime_refreshed)) (snd (snd realtime_refreshed))) = False"
  by (simp add: realtime_refreshed_def refresh_def needs_refresh_def new_Widget_def
      example_config_def new_WidgetConfig_def cpu_usage_def ticking_def datetime_now_def
      total_seconds_def Let_def)

text \<open>
  C5, amended: for a realtime widget \<^verbatim>\<open>needs_refresh\<close> makes the same check as for an
  interval widget: true if never refreshed, otherwise true exactly when the elapsed seconds
  are at least \<^verbatim>\<open>refresh_interval\<close>.
\<close>

theorem realtime_checked_like_interval:
  assumes "wc_refresh_mode (w_config w) = REALTIME"
  shows "needs_refresh w s =
           needs_refresh (w\<lparr>w_config := (w_config w)\<lparr>wc_refresh_mode := INTERVAL\<rparr>\<rparr>) s \<and>
         needs_refresh w s =
           (case last_refresh w of
              None \<Rightarrow> (True, s)
            | Some t0 \<Rightarrow>
                (total_seconds (clock s (reads s) - t0) \<ge> real_of_int (wc_refresh_interval (w_config w)),
                 s\<lparr>reads := Suc (reads s)\<rparr>))"
  using assms by (simp add: needs_refresh_def datetime_now_def Let_def split: option.splits)

theorem realtime_checked_like_interval_witness:
  "wc_refresh_mode (w_config (fst (snd realtime_refreshed))) = REALTIME \<and>
   last_refresh (fst (snd realtime_refreshed)) = Some 1000000 \<and>
   fst (needs_refresh (fst (snd realtime_refreshed)) (snd (snd realtime_refreshed))) = False"
proof -
  have eq: "realtime_refreshed =
     (Inr \<lparr>widget_id = ''cpu'', data = PyNum 65, timestamp = 0, error = None\<rparr>,
      \<lparr>w_config = example_config REALTIME cpu_usage,
        last_data = Some \<lparr>widget_id = ''cpu'', data = PyNum 65, timestamp = 0, error = None\<rparr>,
        last_refresh = Some 1000000\<rparr>,
      \<lparr>clock = (\<lambda>n. 1000000 * int n), reads = 2, log = []\<rparr>)"
    by (simp add: realtime_refreshed_def refresh_def new_Widget_def example_config_def
        new_WidgetConfig_def cpu_usage_def ticking_def datetime_now_def Let_def)
  have mode: "wc_refresh_mode (w_config (fst (snd realtime_refreshed))) = REALTIME"
    by (simp add: eq example_config_def new_WidgetConfig_def)
  from realtime_checked_like_interval [OF mode, of "snd (snd realtime_refreshed)"]
  have "needs_refresh (fst (snd realtime_refreshed)) (snd (snd realtime_refreshed)) =
          (case last_refresh (fst (snd realtime_refreshed)) of
             None \<Rightarrow> (True, snd (snd realtime_refreshed))
           | Some t0 \<Rightarrow>
               (total_seconds (clock (snd (snd realtime_refreshed)) (reads (snd (snd realtime_refreshed))) - t0)
                  \<ge> real_of_int (wc_refresh_interval (w_config (fst (snd realtime_refreshed)))),
                (snd (snd realtime_refreshed))\<lparr>reads := Suc (reads (snd (snd realtime_refreshed)))\<rparr>))"
    by (rule conjunct2)
  then have "fst (needs_refresh (fst (snd realtime_refreshed)) (snd (snd realtime_refreshed))) = False"
    by (simp add: eq example_config_def new_WidgetConfig_def total_seconds_def)
  with mode show ?thesis by (simp add: eq)
qed



subsection \<open>Dictionaries\<close>

lemma dict_get_None: "dict_get d k = None \<longleftrightarrow> k \<notin> set (keys d)"
  by (induction d) (auto simp: keys_def split: if_splits)

lemma dict_set_fresh: "k \<notin> set (keys d) \<Longrightarrow> dict_set k v d = d @ [(k, v)]"
  by (induction d) (auto simp: keys_def)

lemma keys_dict_set_list:
  "keys (dict_set k v d) = (if k \<in> set (keys d) then keys d else keys d @ [k])"
  by (induction d) (force simp: keys_def)+

lemma keys_dict_set: "set (keys (dict_set k v d)) = insert k (set (keys d))"
  by (auto simp: keys_dict_set_list)

subsection \<open>The builder\<close>

lemma chain_layout: "b_layout (chain b calls) = b_layout b @ added_rows calls"
proof (induction calls arbitrary: b)
  case Nil
  then show ?case by (simp add: chain_def)
next
  case (Cons c cs)
  have "b_layout (chain (apply_call b c) cs) = b_layout (apply_call b c) @ added_rows cs"
    using Cons.IH .
  then show ?case
    by (cases c)
      (simp_all add: chain_def description_def metric_def chart_def table_def gauge_def row_def Let_def)
qed

lemma chain_widget_ids:
  "map (\<lambda>w. wc_id (w_config w)) (b_widgets (chain b calls)) =
     map (\<lambda>w. wc_id (w_config w)) (b_widgets b) @ added_ids calls"
proof (induction calls arbitrary: b)
  case Nil
  then show ?case by (simp add: chain_def)
next
  case (Cons c cs)
  have "map (\<lambda>w. wc_id (w_config w)) (b_widgets (chain (apply_call b c) cs)) =
          map (\<lambda>w. wc_id (w_config w)) (b_widgets (apply_call b c)) @ added_ids cs"
    using Cons.IH .
  then show ?case
    by (cases c)
      (simp_all add: chain_def description_def metric_def chart_def table_def gauge_def row_def
        Let_def new_Widget_def new_WidgetConfig_def)
qed

lemma chain_config_id: "dc_id (b_config (chain b calls)) = dc_id (b_config b)"
proof (induction calls arbitrary: b)
  case Nil
  then show ?case by (simp add: chain_def)
next
  case (Cons c cs)
  have "dc_id (b_config (chain (apply_call b c) cs)) = dc_id (b_config (apply_call b c))"
    using Cons.IH .
  then show ?case
    by (cases c)
      (simp_all add: chain_def description_def metric_def chart_def table_def gauge_def row_def Let_def)
qed

lemma foldl_add_widget_config: "d_config (foldl add_widget d ws) = d_config d"
  by (induction ws arbitrary: d) (simp_all add: add_widget_def)

lemma foldl_add_widget_keys_set:
  "set (keys (widgets (foldl add_widget d ws))) =
     set (keys (widgets d)) \<union> set (map (\<lambda>w. wc_id (w_config w)) ws)"
  by (induction ws arbitrary: d) (auto simp: add_widget_def keys_dict_set)

lemma foldl_add_widget_keys:
  "distinct (keys (widgets d) @ map (\<lambda>w. wc_id (w_config w)) ws) \<Longrightarrow>
   keys (widgets (foldl add_widget d ws)) = keys (widgets d) @ map (\<lambda>w. wc_id (w_config w)) ws"
proof (induction ws arbitrary: d)
  case Nil
  then show ?case by simp
next
  case (Cons w ws)
  from Cons.prems have fresh: "wc_id (w_config w) \<notin> set (keys (widgets d))" by auto
  then have k: "keys (widgets (add_widget d w)) = keys (widgets d) @ [wc_id (w_config w)]"
    by (simp add: add_widget_def dict_set_fresh) (simp add: keys_def)
  with Cons.prems have "distinct (keys (widgets (add_widget d w)) @ map (\<lambda>w. wc_id (w_config w)) ws)"
    by auto
  from Cons.IH [OF this] k show ?case by simp
qed

lemma keys_snapshot: "keys (ds_widgets (fst (dashboard_get_data d s))) = keys (widgets d)"
  by (simp add: dashboard_get_data_def datetime_now_def keys_def case_prod_unfold comp_def)

lemma layout_snapshot: "ds_layout (fst (dashboard_get_data d s)) = dc_layout (d_config d)"
  by (simp add: dashboard_get_data_def datetime_now_def)

text \<open>
  C8. For every chain of builder calls whose added widget ids are pairwise distinct,
  \<^verbatim>\<open>build()\<close> gives a dashboard whose \<^verbatim>\<open>get_data()\<close> layout is the rows in call order and
  whose widget mapping has exactly the added ids as keys (in the snapshot too, in call
  order). The witness is the chain with the metrics \<open>users\<close> and \<open>revenue\<close>, the chart
  \<open>chart\<close> and the rows \<open>[users, revenue]\<close>, \<open>[chart]\<close>.
\<close>

theorem build_round_trip:
  assumes "distinct (added_ids calls)"
  shows "ds_layout (fst (dashboard_get_data (build (chain (new_DashboardBuilder i n) calls)) s)) =
           added_rows calls \<and>
         set (keys (widgets (build (chain (new_DashboardBuilder i n) calls)))) = set (added_ids calls) \<and>
         keys (ds_widgets (fst (dashboard_get_data (build (chain (new_DashboardBuilder i n) calls)) s))) =
           added_ids calls"
proof -
  let ?b = "chain (new_DashboardBuilder i n) calls"
  have ids: "map (\<lambda>w. wc_id (w_config w)) (b_widgets ?b) = added_ids calls"
    using chain_widget_ids [of "new_DashboardBuilder i n" calls]
    by (simp add: new_DashboardBuilder_def)
  have rows: "b_layout ?b = added_rows calls"
    using chain_layout [of "new_DashboardBuilder i n" calls]
    by (simp add: new_DashboardBuilder_def)
  have lay: "dc_layout (d_config (build ?b)) = added_rows calls"
    by (simp add: build_def Let_def foldl_add_widget_config new_Dashboard_def rows)
  have ks: "keys (widgets (build ?b)) = added_ids calls"
    using foldl_add_widget_keys
      [of "new_Dashboard ((b_config ?b)\<lparr>dc_layout := b_layout ?b\<rparr>)" "b_widgets ?b"] assms
    by (simp add: build_def Let_def new_Dashboard_def ids keys_def)
  show ?thesis
    by (simp add: layout_snapshot keys_snapshot lay ks)
qed

theorem build_round_trip_witness:
  "distinct (added_ids example_calls) \<and>
   ds_layout (fst (dashboard_get_data (build (chain (new_DashboardBuilder ''main'' ''Main Dashboard'') example_calls)) (ticking 1))) =
     [[''users'', ''revenue''], [''chart'']] \<and>
   set (keys (widgets (build (chain (new_DashboardBuilder ''main'' ''Main Dashboard'') example_calls)))) =
     {''users'', ''revenue'', ''chart''}"
  using build_round_trip [of example_calls "''main''" "''Main Dashboard''" "ticking 1"]
  by (simp add: example_calls_def) 

subsection \<open>The manager\<close>

lemma manager_with_main_keys: "keys (dashboards manager_with_main) = [''main'']"
  by (simp add: manager_with_main_def register_def new_DashboardManager_def keys_def
      build_def Let_def foldl_add_widget_config create_def chain_config_id new_Dashboard_def)
    (simp add: new_DashboardBuilder_def new_DashboardConfig_def)

text \<open>
  C9. For a dashboard id that is not in the registry, \<^verbatim>\<open>get\<close>, \<^verbatim>\<open>refresh\<close> and
  \<^verbatim>\<open>get_data\<close> of the manager each return None, no exception leaves \<^verbatim>\<open>refresh\<close>, and
  the manager (and the world) is as before.
\<close>

theorem missing_dashboard_not_found:
  assumes "dashboard_id \<notin> set (keys (dashboards m))"
  shows "manager_get m dashboard_id = None \<and>
         manager_refresh m dashboard_id s = (Inr None, m, s) \<and>
         manager_get_data m dashboard_id s = (None, s)"
proof -
  from assms have "dict_get (dashboards m) dashboard_id = None"
    by (simp add: dict_get_None)
  then show ?thesis
    by (simp add: manager_get_def manager_refresh_def manager_get_data_def)
qed

theorem missing_dashboard_not_found_witness:
  "''missing'' \<notin> set (keys (dashboards manager_with_main)) \<and>
   manager_get manager_with_main ''missing'' = None \<and>
   manager_refresh manager_with_main ''missing'' (ticking 1) = (Inr None, manager_with_main, ticking 1) \<and>
   manager_get_data manager_with_main ''missing'' (ticking 1) = (None, ticking 1)"
  using missing_dashboard_not_found [of "''missing''" manager_with_main "ticking 1"]
  by (simp add: manager_with_main_keys)

subsection \<open>Refresh passes of a dashboard\<close>




lemma abc_widgets:
  "widgets abc_dashboard =
     [(''a'', new_Widget (new_WidgetConfig ''a'' METRIC ''A'' cpu_usage [])),
      (''b'', new_Widget (new_WidgetConfig ''b'' METRIC ''B'' boom [])),
      (''c'', new_Widget (new_WidgetConfig ''c'' METRIC ''C'' cpu_usage []))]"
  by (simp add: abc_dashboard_def build_def chain_def metric_def new_DashboardBuilder_def
      new_Dashboard_def add_widget_def Let_def new_Widget_def new_WidgetConfig_def)

















subsection \<open>Failed widgets in snapshots\<close>

text \<open>
  \<^verbatim>\<open>refresh\<close> only ever stores a WidgetData without error, so in every state a widget can
  reach the snapshot's error is None.
\<close>

lemma refresh_stores_no_error:
  assumes "case last_data w of None \<Rightarrow> True | Some d \<Rightarrow> error d = None"
  shows "case last_data (fst (snd (refresh w s))) of None \<Rightarrow> True | Some d \<Rightarrow> error d = None"
proof (cases "fetch (wc_data_source (w_config w) s)")
  case (Returns v)
  then show ?thesis by (simp add: refresh_Returns)
next
  case (Raises e)
  with assms show ?thesis
    by (cases e rule: str.cases) (simp_all add: refresh_Exception refresh_StrRaises refresh_BaseOnly)
qed

lemma snapshot_error_never_set:
  assumes "refreshed c w"
  shows "ws_error (to_dict w) = None"
proof -
  from assms have "case last_data w of None \<Rightarrow> True | Some d \<Rightarrow> error d = None"
  proof (induction rule: refreshed.induct)
    case fresh
    then show ?case by (simp add: new_Widget_def)
  next
    case (again w s)
    from again.IH show ?case by (rule refresh_stores_no_error)
  qed
  then show ?thesis by (simp add: to_dict_def split: option.splits)
qed

text \<open>
  C3, evaluated on the code: a widget whose latest refresh failed is rendered without an
  error. The flaky widget, after a success and a failure, still shows the old value and
  no error. In the dashboard a, b, c the pass returns an error for b, but the snapshot of
  the dashboard shows b with no data and no error.
\<close>

theorem failed_widget_snapshot:
  "fst after_failure =
     Inr \<lparr>widget_id = ''cpu'', data = PyNone, timestamp = 80000000, error = Some ''boom''\<rparr> \<and>
   ws_data (to_dict (fst (snd after_failure))) = PyNum 65 \<and>
   ws_error (to_dict (fst (snd after_failure))) = None \<and>
   fst (refresh_all abc_dashboard (ticking 1)) =
     Inr [(''a'', \<lparr>widget_id = ''a'', data = PyNum 65, timestamp = 0, error = None\<rparr>),
          (''b'', \<lparr>widget_id = ''b'', data = PyNone, timestamp = 2, error = Some ''boom''\<rparr>),
          (''c'', \<lparr>widget_id = ''c'', data = PyNum 65, timestamp = 3, error = None\<rparr>)] \<and>
   map (\<lambda>(k, snap). (k, ws_data snap, ws_error snap))
     (ds_widgets (fst (dashboard_get_data (fst (snd (refresh_all abc_dashboard (ticking 1))))
                        (snd (snd (refresh_all abc_dashboard (ticking 1))))))) =
     [(''a'', PyNum 65, None), (''b'', PyNone, None), (''c'', PyNum 65, None)]"
  by (simp add: after_failure_eq to_dict_def dashboard_get_data_def
      refresh_all_def abc_widgets refresh_def new_Widget_def new_WidgetConfig_def
      cpu_usage_def boom_def datetime_now_def logger_error_def ticking_def Let_def)

end
